theory Spec2Isabelle
  imports Complex_Main "HOL-Library.Word"
begin

section \<open>JavaScript strings\<close>

text \<open>
  A JavaScript string is a sequence of UTF-16 code units and \<open>.length\<close> counts them,
  so a string is a list of 16-bit words and \<open>length\<close> is the source's \<open>.length\<close>.
  \<open>utf16\<close> gives the code units of a literal whose characters are all below U+0100
  (every literal of the source that the model needs is of that kind; the two
  that contain U+00E4 are spelled with the code unit written out).
\<close>

type_synonym jsstring = "16 word list"

definition utf16 :: "string \<Rightarrow> jsstring" where
  "utf16 s = map of_char s"

text \<open>
  \<open>String.prototype.trim\<close> removes, at both ends, the code points that ECMAScript
  calls WhiteSpace (TAB, VT, FF, ZWNBSP and the category Zs) and LineTerminator
  (LF, CR, LS, PS). All of them are single code units.
\<close>

definition is_whitespace :: "16 word \<Rightarrow> bool" where
  "is_whitespace c \<longleftrightarrow>
     c \<in> {0x9, 0xA, 0xB, 0xC, 0xD, 0x20, 0xA0, 0x1680,
          0x2028, 0x2029, 0x202F, 0x205F, 0x3000, 0xFEFF}
     \<or> (0x2000 \<le> c \<and> c \<le> 0x200A)"

definition trim :: "jsstring \<Rightarrow> jsstring" where
  "trim s = rev (dropWhile is_whitespace (rev (dropWhile is_whitespace s)))"

section \<open>translations.ts\<close>

datatype Language = EN | DE

text \<open>
  Of the entries of \<open>translations\<close> (here \<open>translations_tbl\<close>) the handlers
  of \<open>App\<close> read the five error
  messages; the other entries are labels that only the JSX renders.
\<close>

record Translations =
  errorLength :: jsstring
  errorNoLocation :: jsstring
  errorSendFailed :: jsstring
  errorBackendUnreachable :: jsstring
  errorLoadReports :: jsstring

fun translations_tbl :: "Language \<Rightarrow> Translations" where
  "translations_tbl EN = \<lparr>
     errorLength = utf16 ''Text must be between 5 and 150 characters.'',
     errorNoLocation = utf16 ''Please select a position on the map first.'',
     errorSendFailed = utf16 ''Sending failed.'',
     errorBackendUnreachable = utf16 ''Backend unreachable (is FastAPI running on port 8000?).'',
     errorLoadReports = utf16 ''Reports could not be loaded.'' \<rparr>"
| "translations_tbl DE = \<lparr>
     errorLength = utf16 ''Text muss zwischen 5 und 150 Zeichen haben.'',
     errorNoLocation =
       utf16 ''Bitte zuerst eine Position auf der Karte ausw'' @ [0xE4] @ utf16 ''hlen.'',
     errorSendFailed = utf16 ''Senden fehlgeschlagen.'',
     errorBackendUnreachable =
       utf16 ''Backend nicht erreichbar (l'' @ [0xE4] @ utf16 ''uft FastAPI auf Port 8000?).'',
     errorLoadReports = utf16 ''Reports konnten nicht geladen werden.'' \<rparr>"

text \<open>
  \<open>categoryTranslations\<close>: per language, an object from the stored category value to
  the name shown; the object's own properties in source order.
\<close>

fun categoryTranslations :: "Language \<Rightarrow> (jsstring \<times> jsstring) list" where
  "categoryTranslations EN =
     [(utf16 ''Hindernis'', utf16 ''Obstacle''),
      (utf16 ''Gefahrenstelle'', utf16 ''Danger Spot''),
      (utf16 ''Infrastrukturproblem'', utf16 ''Infrastructure Problem''),
      (utf16 ''Positives Feedback'', utf16 ''Positive Feedback''),
      (utf16 ''Spam'', utf16 ''Spam'')]"
| "categoryTranslations DE =
     [(utf16 ''Hindernis'', utf16 ''Hindernis''),
      (utf16 ''Gefahrenstelle'', utf16 ''Gefahrenstelle''),
      (utf16 ''Infrastrukturproblem'', utf16 ''Infrastrukturproblem''),
      (utf16 ''Positives Feedback'', utf16 ''Positives Feedback''),
      (utf16 ''Spam'', utf16 ''Spam'')]"

section \<open>App.tsx: constants and markerColor\<close>

definition API_BASE :: jsstring where
  "API_BASE = utf16 ''http://127.0.0.1:8000''"

definition CATEGORIES :: "jsstring list" where
  "CATEGORIES = [utf16 ''Hindernis'', utf16 ''Infrastrukturproblem'',
                 utf16 ''Gefahrenstelle'', utf16 ''Positives Feedback'']"

text \<open>
  \<open>markerColor(category)\<close>: the parameter is typed \<open>string\<close>, and the body guards it with
  \<open>category ?? ""\<close>; \<open>None\<close> is a \<open>null\<close> or \<open>undefined\<close> argument. The \<open>switch\<close> compares
  the trimmed string with \<open>===\<close>, case by case in source order. The variant of
  \<open>App.tsx\<close> without filter and search has the same function, line for line.
\<close>

definition markerColor :: "jsstring option \<Rightarrow> jsstring" where
  "markerColor category =
     (let c = trim (case category of None \<Rightarrow> [] | Some s \<Rightarrow> s) in
      if c = utf16 ''Hindernis'' then utf16 ''#ff5a5f''
      else if c = utf16 ''Gefahrenstelle'' then utf16 ''#ffb020''
      else if c = utf16 ''Infrastrukturproblem'' then utf16 ''#2dd4bf''
      else if c = utf16 ''Positives Feedback'' then utf16 ''#4f8cff''
      else if c = utf16 ''Spam'' then utf16 ''#94a3b8''
      else utf16 ''#a78bfa'')"

text \<open>The five labels that \<open>markerColor\<close> has a case for, in source order.\<close>

definition marker_labels :: "jsstring list" where
  "marker_labels = [utf16 ''Hindernis'', utf16 ''Gefahrenstelle'',
                    utf16 ''Infrastrukturproblem'', utf16 ''Positives Feedback'',
                    utf16 ''Spam'']"

text \<open>The six colours that occur in \<open>markerColor\<close>, the fallback last.\<close>

definition marker_colors :: "jsstring list" where
  "marker_colors = [utf16 ''#ff5a5f'', utf16 ''#ffb020'', utf16 ''#2dd4bf'',
                    utf16 ''#4f8cff'', utf16 ''#94a3b8'', utf16 ''#a78bfa'']"

section \<open>App.tsx: data\<close>

text \<open>A JavaScript \<open>number\<close>. The program only stores and forwards numbers.\<close>

type_synonym number = real

text \<open>
  \<open>type Report\<close>. The fields \<open>id\<close> and \<open>text\<close> carry a suffix: \<open>id\<close> is a constant of HOL
  and \<open>text\<close> is also the name of a state variable of \<open>App\<close>. The declared type of
  \<open>category\<close> ends in \<open>| string\<close>, so it is any string.
\<close>

record Report =
  id_R :: number
  text_R :: jsstring
  latitude :: number
  longitude :: number
  timestamp :: jsstring
  category :: jsstring
  confidence :: number
  source :: jsstring
  is_corrected :: bool
  model_name :: "jsstring option"
  model_version :: "jsstring option"

text \<open>
  A value that \<open>JSON.parse\<close> can return. An object is the list of its own properties,
  with distinct keys. \<open>res.json()\<close> has type \<open>Promise<any>\<close>: the body of an error
  response is such a value, and so is what \<open>setError\<close> stores from it.
\<close>

datatype jsvalue =
    JNull
  | JBoolean bool
  | JNumber number
  | JString jsstring
  | JArray "jsvalue list"
  | JObject "(jsstring \<times> jsvalue) list"

text \<open>How an awaited promise settles.\<close>

datatype 'a settled = Rejected | Resolved 'a

text \<open>
  What the code reads of a \<open>Response\<close>: \<open>res.ok\<close>, and how \<open>res.json()\<close> settles.
  \<open>submit\<close> reads the body untyped (\<open>'b\<close> is \<open>jsvalue\<close>); \<open>loadReports\<close> casts it
  (\<open>as Report[]\<close>), so there \<open>'b\<close> is \<open>Report list\<close>, and \<open>Rejected\<close> stands for every
  body on which \<open>res.json()\<close>, \<open>data.filter\<close> or \<open>r.category\<close> throws.
\<close>

record 'b Response =
  ok :: bool
  json :: "'b settled"

text \<open>
  A request URL: the text before the query, and the pairs that the source passes
  to \<open>params.append\<close>, as it passes them. The source writes
  \<open>params.toString() ? '?' + params.toString() : ''\<close>. What \<open>URLSearchParams\<close> does
  with a pair is the platform's: it stores scalar-value strings (a lone surrogate
  becomes U+FFFD) and serialises them percent-encoded; the serialisation is empty
  exactly when there is no pair.
\<close>

record Url =
  endpoint :: jsstring
  params :: "(jsstring \<times> jsstring) list"

text \<open>
  What the program sends: \<open>fetch(url)\<close>, \<open>fetch(url, {method: "POST", ...})\<close> with the
  fields \<open>text\<close>, \<open>latitude\<close>, \<open>longitude\<close>, \<open>source\<close> of its JSON body, and
  \<open>window.open(url, '_blank')\<close>.
\<close>

datatype request =
    GET Url
  | POST Url jsstring number number jsstring
  | WindowOpen Url

text \<open>
  Where a call of \<open>submit\<close> is suspended, with the variables of its closure that it
  still reads: \<open>t\<close> is fixed by the \<open>language\<close> of the render that created the handler,
  and the \<open>loadReports\<close> it calls is the one of that render, with that render's
  \<open>filterCategory\<close> and \<open>searchText\<close>.
\<close>

datatype submit_await =
    NotRunning
  | AwaitPost Language jsstring jsstring
  | AwaitReload Language

text \<open>
  The state: the nine \<open>useState\<close> variables of \<open>App\<close>, then what is in flight
  (\<open>submitting\<close>; \<open>loading\<close>, one entry per \<open>loadReports\<close> call of the effect that has
  not settled, holding the language of its \<open>catch\<close> handler's \<open>t\<close>), and the requests
  sent so far, oldest first.
\<close>

record App =
  language :: Language
  "text" :: jsstring
  picked :: "(number \<times> number) option"
  reports :: "Report list"
  error :: jsvalue
  busy :: bool
  filterCategory :: jsstring
  searchText :: jsstring
  tempSearch :: jsstring
  submitting :: submit_await
  loading :: "Language list"
  requests :: "request list"

section \<open>App.tsx: loadReports and the effect\<close>

definition loadReports_params :: "jsstring \<Rightarrow> jsstring \<Rightarrow> (jsstring \<times> jsstring) list" where
  "loadReports_params fc st =
     (if fc \<noteq> [] then [(utf16 ''category'', fc)] else []) @
     (if st \<noteq> [] then [(utf16 ''search'', st)] else [])"

definition loadReports_url :: "jsstring \<Rightarrow> jsstring \<Rightarrow> Url" where
  "loadReports_url fc st =
     \<lparr>endpoint = API_BASE @ utf16 ''/reports'', params = loadReports_params fc st\<rparr>"

text \<open>
  \<open>loadReports\<close> after its \<open>fetch\<close>: \<open>None\<close> when the promise it returns rejects
  (nothing has been set then), else the state after \<open>setReports\<close>. \<open>res.ok\<close> is not
  read. No state changes between the two awaits, so they settle in one step.
\<close>

definition loadReports_settle :: "Report list Response settled \<Rightarrow> App \<Rightarrow> App option" where
  "loadReports_settle r s =
     (case r of
        Rejected \<Rightarrow> None
      | Resolved res \<Rightarrow>
          (case json res of
             Rejected \<Rightarrow> None
           | Resolved data \<Rightarrow>
               Some (s\<lparr>reports := filter (\<lambda>r. category r \<noteq> utf16 ''Spam'') data\<rparr>)))"

text \<open>
  The effect \<open>loadReports().catch(() => setError(t.errorLoadReports))\<close>: when it
  runs, the request goes out and the call is in flight.
\<close>

definition useEffect_run :: "App \<Rightarrow> App" where
  "useEffect_run s =
     s\<lparr>requests := requests s @ [GET (loadReports_url (filterCategory s) (searchText s))],
       loading := loading s @ [language s]\<rparr>"

text \<open>
  The effect's dependencies are \<open>[filterCategory, searchText]\<close>: after a state
  change it runs again when one of the two has changed.
\<close>

definition rerender :: "App \<Rightarrow> App \<Rightarrow> App" where
  "rerender old new =
     (if filterCategory new \<noteq> filterCategory old \<or> searchText new \<noteq> searchText old
      then useEffect_run new else new)"

definition effect_settle :: "nat \<Rightarrow> Report list Response settled \<Rightarrow> App \<Rightarrow> App" where
  "effect_settle i r s =
     (if i < length (loading s) then
        let lang = loading s ! i;
            s' = s\<lparr>loading := take i (loading s) @ drop (Suc i) (loading s)\<rparr>
        in (case loadReports_settle r s' of
              None \<Rightarrow> s'\<lparr>error := JString (errorLoadReports (translations_tbl lang))\<rparr>
            | Some s'' \<Rightarrow> s'')
      else s)"

section \<open>App.tsx: submit\<close>

text \<open>\<open>msg?.detail\<close>; \<open>None\<close> is \<open>undefined\<close>.\<close>

fun optional_detail :: "jsvalue \<Rightarrow> jsvalue option" where
  "optional_detail JNull = None"
| "optional_detail (JObject props) = map_of props (utf16 ''detail'')"
| "optional_detail _ = None"

text \<open>\<open>a ?? b\<close>: \<open>b\<close> when \<open>a\<close> is \<open>undefined\<close> or \<open>null\<close>.\<close>

fun nullish :: "jsvalue option \<Rightarrow> jsvalue \<Rightarrow> jsvalue" where
  "nullish None b = b"
| "nullish (Some JNull) b = b"
| "nullish (Some a) b = a"

text \<open>\<open>submit\<close> from its first line to the first \<open>await\<close>, or to an early \<open>return\<close>.\<close>

definition submit :: "App \<Rightarrow> App" where
  "submit s =
     (let s1 = s\<lparr>error := JNull\<rparr>;
          t = translations_tbl (language s);
          trimmed = trim (text s)
      in if length trimmed < 5 \<or> length trimmed > 150 then
           s1\<lparr>error := JString (errorLength t)\<rparr>
         else
           (case picked s of
              None \<Rightarrow> s1\<lparr>error := JString (errorNoLocation t)\<rparr>
            | Some (lat, lng) \<Rightarrow>
                s1\<lparr>busy := True,
                   requests := requests s1 @
                     [POST \<lparr>endpoint = API_BASE @ utf16 ''/reports'', params = []\<rparr>
                           trimmed lat lng (utf16 ''real'')],
                   submitting := AwaitPost (language s) (filterCategory s) (searchText s)\<rparr>))"

text \<open>The \<open>catch\<close> and the \<open>finally\<close> block of \<open>submit\<close>.\<close>

definition submit_catch :: "Language \<Rightarrow> App \<Rightarrow> App" where
  "submit_catch lang s = s\<lparr>error := JString (errorBackendUnreachable (translations_tbl lang))\<rparr>"

definition submit_finally :: "App \<Rightarrow> App" where
  "submit_finally s = s\<lparr>busy := False, submitting := NotRunning\<rparr>"

text \<open>
  \<open>submit\<close> resumed when the POST has settled. For a response that is not ok,
  \<open>res.json().catch(() => null)\<close> is awaited next; no state changes in between, so
  both settle in one step.
\<close>

definition submit_post_settle :: "jsvalue Response settled \<Rightarrow> App \<Rightarrow> App" where
  "submit_post_settle r s =
     (case submitting s of
        AwaitPost lang fc st \<Rightarrow>
          (case r of
             Rejected \<Rightarrow> submit_finally (submit_catch lang s)
           | Resolved res \<Rightarrow>
               if \<not> ok res then
                 let msg = (case json res of Rejected \<Rightarrow> JNull | Resolved v \<Rightarrow> v)
                 in submit_finally
                      (s\<lparr>error := nullish (optional_detail msg)
                                     (JString (errorSendFailed (translations_tbl lang)))\<rparr>)
               else
                 s\<lparr>text := [],
                   requests := requests s @ [GET (loadReports_url fc st)],
                   submitting := AwaitReload lang\<rparr>)
      | _ \<Rightarrow> s)"

text \<open>\<open>submit\<close> resumed when its \<open>await loadReports()\<close> has settled.\<close>

definition submit_reload_settle :: "Report list Response settled \<Rightarrow> App \<Rightarrow> App" where
  "submit_reload_settle r s =
     (case submitting s of
        AwaitReload lang \<Rightarrow>
          (case loadReports_settle r s of
             None \<Rightarrow> submit_finally (submit_catch lang s)
           | Some s' \<Rightarrow> submit_finally s')
      | _ \<Rightarrow> s)"

section \<open>App.tsx: the error banner\<close>

text \<open>
  The JSX shows the state variable \<open>error\<close> as
  \<open>{error && (<div ...>{error}</div>)}\<close>. The state is typed \<open>string | null\<close>, but
  \<open>msg?.detail\<close> is untyped, so what is rendered is any value of JSON.
  \<open>truthy\<close> is JavaScript's conversion to a boolean.
\<close>

fun truthy :: "jsvalue \<Rightarrow> bool" where
  "truthy JNull = False"
| "truthy (JBoolean b) = b"
| "truthy (JNumber n) = (n \<noteq> 0)"
| "truthy (JString s) = (s \<noteq> [])"
| "truthy (JArray xs) = True"
| "truthy (JObject props) = True"

text \<open>
  What React makes of a value as a child: no node for \<open>null\<close>, a boolean or the
  empty string, a text node for a string or a number, the nodes of its elements for
  an array; on an object it throws (\<open>Objects are not valid as a React child\<close>), and
  \<open>None\<close> is that. A number's text is the platform's \<open>String(n)\<close>.
\<close>

datatype text_node = TextString jsstring | TextNumber number

fun react_child :: "jsvalue \<Rightarrow> text_node list option"
  and react_children :: "jsvalue list \<Rightarrow> text_node list option" where
  "react_child JNull = Some []"
| "react_child (JBoolean b) = Some []"
| "react_child (JNumber n) = Some [TextNumber n]"
| "react_child (JString s) = Some (if s = [] then [] else [TextString s])"
| "react_child (JArray xs) = react_children xs"
| "react_child (JObject props) = None"
| "react_children [] = Some []"
| "react_children (x # xs) =
     (case react_child x of
        None \<Rightarrow> None
      | Some a \<Rightarrow> (case react_children xs of None \<Rightarrow> None | Some b \<Rightarrow> Some (a @ b)))"

text \<open>
  What is on screen for \<open>error\<close>. \<open>a && b\<close> is \<open>a\<close> when \<open>a\<close> is falsy, so a falsy
  \<open>error\<close> is itself the child, with no banner around it; a truthy one is the child
  of the banner's \<open>div\<close>. \<open>None\<close>: rendering throws, and nothing of the component
  is shown.
\<close>

datatype error_view = NoBanner "text_node list" | Banner "text_node list"

definition render_error :: "jsvalue \<Rightarrow> error_view option" where
  "render_error e =
     (if truthy e then map_option Banner (react_child e)
      else map_option NoBanner (react_child e))"

section \<open>App.tsx: the other handlers\<close>

definition handleSearch :: "App \<Rightarrow> App" where
  "handleSearch s = s\<lparr>searchText := tempSearch s\<rparr>"

definition clearFilters :: "App \<Rightarrow> App" where
  "clearFilters s = s\<lparr>filterCategory := [], searchText := [], tempSearch := []\<rparr>"

definition exportCSV_params :: "jsstring \<Rightarrow> (jsstring \<times> jsstring) list" where
  "exportCSV_params fc = (if fc \<noteq> [] then [(utf16 ''category'', fc)] else [])"

definition exportCSV :: "App \<Rightarrow> App" where
  "exportCSV s =
     s\<lparr>requests := requests s @
        [WindowOpen \<lparr>endpoint = API_BASE @ utf16 ''/reports/export'',
                     params = exportCSV_params (filterCategory s)\<rparr>]\<rparr>"

definition toggleLanguage :: "App \<Rightarrow> App" where
  "toggleLanguage s = s\<lparr>language := (if language s = EN then DE else EN)\<rparr>"

text \<open>\<open>activeFilters = filterCategory || searchText\<close>, read as a condition.\<close>

definition activeFilters :: "App \<Rightarrow> bool" where
  "activeFilters s \<longleftrightarrow> filterCategory s \<noteq> [] \<or> searchText s \<noteq> []"

section \<open>App.tsx: the component as a transition system\<close>

text \<open>
  What can happen to the mounted component: the events of its controls, and the
  settling of a request in flight. Every handler runs to its next \<open>await\<close> before
  the next event, and the state it set is rendered before the next event.
\<close>

datatype event =
    EditText jsstring
  | PickPosition number number
  | ClickSubmit
  | SelectCategory jsstring
  | EditSearch jsstring
  | Search
  | ClickClear
  | ToggleLanguage
  | ClickExport
  | PostSettles "jsvalue Response settled"
  | ReloadSettles "Report list Response settled"
  | EffectSettles nat "Report list Response settled"

text \<open>
  The submit button is rendered with \<open>disabled={busy}\<close>; the category \<open>select\<close> offers
  the empty value and \<open>CATEGORIES\<close>; the clear button is rendered only when
  \<open>activeFilters\<close>; \<open>Search\<close> is the search button or the Enter key in the search input.
\<close>

fun step :: "event \<Rightarrow> App \<Rightarrow> App" where
  "step (EditText v) s = s\<lparr>text := v\<rparr>"
| "step (PickPosition lat lng) s = s\<lparr>picked := Some (lat, lng)\<rparr>"
| "step ClickSubmit s = (if busy s then s else submit s)"
| "step (SelectCategory c) s =
     (if c \<in> set ([] # CATEGORIES) then rerender s (s\<lparr>filterCategory := c\<rparr>) else s)"
| "step (EditSearch v) s = s\<lparr>tempSearch := v\<rparr>"
| "step Search s = rerender s (handleSearch s)"
| "step ClickClear s = (if activeFilters s then rerender s (clearFilters s) else s)"
| "step ToggleLanguage s = toggleLanguage s"
| "step ClickExport s = exportCSV s"
| "step (PostSettles r) s = submit_post_settle r s"
| "step (ReloadSettles r) s = submit_reload_settle r s"
| "step (EffectSettles i r) s = effect_settle i r s"

fun run :: "App \<Rightarrow> event list \<Rightarrow> App" where
  "run s [] = s"
| "run s (e # es) = run (step e s) es"

text \<open>
  The component once mounted: the initial values of the \<open>useState\<close> calls, and the
  effect has run for the first time.
\<close>

definition mounted :: App where
  "mounted = useEffect_run
     \<lparr>language = DE, text = [], picked = None, reports = [], error = JNull, busy = False,
      filterCategory = [], searchText = [], tempSearch = [],
      submitting = NotRunning, loading = [], requests = []\<rparr>"

section \<open>Properties of a state\<close>

text \<open>The URL of a request.\<close>

fun url_of :: "request \<Rightarrow> Url" where
  "url_of (GET u) = u"
| "url_of (POST u txt lat lng src) = u"
| "url_of (WindowOpen u) = u"

text \<open>The requests that are a POST.\<close>

fun is_POST :: "request \<Rightarrow> bool" where
  "is_POST (POST u txt lat lng src) = True"
| "is_POST q = False"

text \<open>No stored report has the category \<open>Spam\<close>.\<close>

definition no_spam :: "App \<Rightarrow> bool" where
  "no_spam s \<longleftrightarrow> (\<forall>r \<in> set (reports s). category r \<noteq> utf16 ''Spam'')"

text \<open>\<open>busy\<close> is set exactly while a call of \<open>submit\<close> is suspended.\<close>

definition busy_inv :: "App \<Rightarrow> bool" where
  "busy_inv s \<longleftrightarrow> (busy s \<longleftrightarrow> submitting s \<noteq> NotRunning)"

text \<open>
  A value of the category \<open>select\<close>; and the state in which the selected filter, the
  filter a suspended \<open>submit\<close> will reload with, and every \<open>category\<close> parameter sent
  so far are such values.
\<close>

definition offered :: "jsstring \<Rightarrow> bool" where
  "offered c \<longleftrightarrow> c \<in> set ([] # CATEGORIES)"

definition category_inv :: "App \<Rightarrow> bool" where
  "category_inv s \<longleftrightarrow>
     offered (filterCategory s)
     \<and> (case submitting s of AwaitPost lang fc st \<Rightarrow> offered fc | _ \<Rightarrow> True)
     \<and> (\<forall>q \<in> set (requests s). \<forall>v.
           (utf16 ''category'', v) \<in> set (params (url_of q)) \<longrightarrow> v \<in> set CATEGORIES)"

section \<open>Facts about strings\<close>

lemma of_char_word16_eq_iff: "(of_char a :: 16 word) = of_char b \<longleftrightarrow> a = b"
proof
  assume h: "(of_char a :: 16 word) = of_char b"
  have u: "unat (of_char c :: 16 word) = of_char c" for c
  proof -
    have "(of_char c :: nat) < 256"
      by (rule nat_of_char_less_256)
    moreover have "(256 :: nat) < 2 ^ LENGTH(16)"
      by simp
    ultimately have lt: "(of_char c :: nat) < 2 ^ LENGTH(16)"
      by (rule less_trans)
    have "(of_char c :: 16 word) = word_of_nat (of_char c)"
      by (simp only: of_nat_of_char)
    then have "unat (of_char c :: 16 word) = unat (word_of_nat (of_char c) :: 16 word)"
      by (rule arg_cong)
    also have "\<dots> = of_char c mod 2 ^ LENGTH(16)"
      by (rule unat_of_nat)
    also have "\<dots> = of_char c"
      using lt by (rule mod_less)
    finally show ?thesis .
  qed
  from h have "unat (of_char a :: 16 word) = unat (of_char b :: 16 word)"
    by simp
  then have "(of_char a :: nat) = of_char b"
    by (simp only: u)
  then show "a = b"
    by simp
qed simp

lemma utf16_eq_iff [simp]: "utf16 a = utf16 b \<longleftrightarrow> a = b"
  unfolding utf16_def
  by (rule inj_map_eq_map) (simp add: inj_on_def of_char_word16_eq_iff)

lemma length_utf16 [simp]: "length (utf16 s) = length s"
  by (simp add: utf16_def)

lemma utf16_Nil [simp]: "utf16 [] = []"
  by (simp add: utf16_def)

lemma utf16_eq_Nil_iff [simp]: "utf16 s = [] \<longleftrightarrow> s = []" "[] = utf16 s \<longleftrightarrow> s = []"
  by (auto simp: utf16_def)

lemma trim_Nil [simp]: "trim [] = []"
  by (simp add: trim_def)

lemma length_trim_le: "length (trim s) \<le> length s"
proof -
  have "length (trim s) \<le> length (dropWhile is_whitespace s)"
    unfolding trim_def by (simp add: length_dropWhile_le order_trans [OF length_dropWhile_le])
  also have "\<dots> \<le> length s"
    by (rule length_dropWhile_le)
  finally show ?thesis .
qed

text \<open>
  A string that neither starts nor ends with whitespace is what \<open>trim\<close> leaves of it
  with any whitespace around it.
\<close>

lemma dropWhile_ws_append:
  assumes "\<forall>c \<in> set pre. is_whitespace c"
  shows "dropWhile is_whitespace (pre @ s) = dropWhile is_whitespace s"
  using assms by (induction pre) simp_all

lemma trim_padded:
  assumes pre: "\<forall>c \<in> set pre. is_whitespace c"
    and post: "\<forall>c \<in> set post. is_whitespace c"
    and ne: "s \<noteq> []"
    and first: "\<not> is_whitespace (hd s)"
    and last: "\<not> is_whitespace (last s)"
  shows "trim (pre @ s @ post) = s"
proof -
  have front: "dropWhile is_whitespace (pre @ s @ post) = s @ post"
    using ne first by (cases s) (simp_all add: dropWhile_ws_append [OF pre])
  have post': "\<forall>c \<in> set (rev post). is_whitespace c"
    using post by simp
  have "rev s \<noteq> []" "\<not> is_whitespace (hd (rev s))"
    using ne last by (simp_all add: hd_rev)
  then have rear: "dropWhile is_whitespace (rev post @ rev s) = rev s"
    by (cases "rev s") (simp_all add: dropWhile_ws_append [OF post'])
  show ?thesis
    by (simp add: trim_def front rear)
qed

section \<open>markerColor\<close>

lemma marker_label_ends:
  assumes "l \<in> set marker_labels"
  shows "l \<noteq> [] \<and> \<not> is_whitespace (hd l) \<and> \<not> is_whitespace (last l)"
  using assms by (auto simp: marker_labels_def utf16_def is_whitespace_def)

lemma trim_marker_label:
  assumes "l \<in> set marker_labels"
  shows "trim l = l"
  using trim_padded [of "[]" "[]" l] marker_label_ends [OF assms] by simp

lemma markerColor_label_index:
  assumes "i < 5"
  shows "markerColor (Some (marker_labels ! i)) = marker_colors ! i"
proof -
  from assms consider "i = 0" | "i = 1" | "i = 2" | "i = 3" | "i = 4"
    by linarith
  then show ?thesis
  proof cases
    case 1
    have "trim (utf16 ''Hindernis'') = utf16 ''Hindernis''"
      by (rule trim_marker_label) (simp add: marker_labels_def)
    with 1 show ?thesis
      by (simp add: markerColor_def marker_labels_def marker_colors_def)
  next
    case 2
    have "trim (utf16 ''Gefahrenstelle'') = utf16 ''Gefahrenstelle''"
      by (rule trim_marker_label) (simp add: marker_labels_def)
    with 2 show ?thesis
      by (simp add: markerColor_def marker_labels_def marker_colors_def)
  next
    case 3
    have "trim (utf16 ''Infrastrukturproblem'') = utf16 ''Infrastrukturproblem''"
      by (rule trim_marker_label) (simp add: marker_labels_def)
    with 3 show ?thesis
      by (simp add: markerColor_def marker_labels_def marker_colors_def)
  next
    case 4
    have "trim (utf16 ''Positives Feedback'') = utf16 ''Positives Feedback''"
      by (rule trim_marker_label) (simp add: marker_labels_def)
    with 4 show ?thesis
      by (simp add: markerColor_def marker_labels_def marker_colors_def)
  next
    case 5
    have "trim (utf16 ''Spam'') = utf16 ''Spam''"
      by (rule trim_marker_label) (simp add: marker_labels_def)
    with 5 show ?thesis
      by (simp add: markerColor_def marker_labels_def marker_colors_def)
  qed
qed

lemma markerColor_range: "markerColor c \<in> set marker_colors"
  by (simp add: markerColor_def marker_colors_def Let_def)

lemma markerColor_padded:
  assumes l: "l \<in> set marker_labels"
    and pre: "\<forall>c \<in> set pre. is_whitespace c"
    and post: "\<forall>c \<in> set post. is_whitespace c"
  shows "markerColor (Some (pre @ l @ post)) = markerColor (Some l)"
proof -
  have "trim (pre @ l @ post) = l"
    using trim_padded [OF pre post] marker_label_ends [OF l] by simp
  moreover have "trim l = l"
    by (rule trim_marker_label [OF l])
  ultimately show ?thesis
    by (simp add: markerColor_def)
qed

lemma markerColor_fallback:
  assumes "trim (case c of None \<Rightarrow> [] | Some s \<Rightarrow> s) \<notin> set marker_labels"
  shows "markerColor c = utf16 ''#a78bfa''"
  using assms by (simp add: markerColor_def marker_labels_def Let_def)

text \<open>
  C10. \<open>markerColor\<close> returns, for every argument (a string, or \<open>null\<close>/\<open>undefined\<close>), one
  of the six colours; the five labels have five different colours, none of them the
  fallback; a label keeps its colour with whitespace around it; every argument whose
  trimmed value is not one of the five labels, the empty string among them, gets the
  fallback \<open>#a78bfa\<close>.
\<close>

theorem markerColor_total_six_colors:
  "markerColor c \<in> set marker_colors
   \<and> length marker_colors = 6 \<and> distinct marker_colors
   \<and> map (\<lambda>l. markerColor (Some l)) marker_labels = take 5 marker_colors
   \<and> (\<forall>l \<in> set marker_labels. \<forall>pre post.
         (\<forall>w \<in> set pre. is_whitespace w) \<and> (\<forall>w \<in> set post. is_whitespace w)
         \<longrightarrow> markerColor (Some (pre @ l @ post)) = markerColor (Some l))
   \<and> (trim (case c of None \<Rightarrow> [] | Some s \<Rightarrow> s) \<notin> set marker_labels
         \<longrightarrow> markerColor c = utf16 ''#a78bfa'')
   \<and> markerColor (Some []) = utf16 ''#a78bfa''
   \<and> markerColor None = utf16 ''#a78bfa''"
proof -
  have colors: "length marker_colors = 6 \<and> distinct marker_colors"
    by (simp add: marker_colors_def)
  have "length marker_labels = 5"
    by (simp add: marker_labels_def)
  then have labels: "map (\<lambda>l. markerColor (Some l)) marker_labels = take 5 marker_colors"
    using colors by (intro nth_equalityI) (simp_all add: markerColor_label_index)
  have empty: "markerColor (Some []) = utf16 ''#a78bfa''" "markerColor None = utf16 ''#a78bfa''"
    by (simp_all add: markerColor_def)
  show ?thesis
    using markerColor_range colors labels markerColor_padded markerColor_fallback empty
    by blast
qed

theorem markerColor_total_six_colors_witness:
  "markerColor (Some (utf16 ''  Gefahrenstelle '')) = utf16 ''#ffb020''
   \<and> markerColor (Some (utf16 ''Baustelle'')) = utf16 ''#a78bfa''"
proof -
  have l: "utf16 ''Gefahrenstelle'' \<in> set marker_labels"
    by (simp add: marker_labels_def)
  have pre: "\<forall>w \<in> set (utf16 ''  ''). is_whitespace w"
    and post: "\<forall>w \<in> set (utf16 '' ''). is_whitespace w"
    by (simp_all add: utf16_def is_whitespace_def)
  have split: "utf16 ''  Gefahrenstelle '' = utf16 ''  '' @ utf16 ''Gefahrenstelle'' @ utf16 '' ''"
    by (simp add: utf16_def)
  have other: "trim (case Some (utf16 ''Baustelle'') of None \<Rightarrow> [] | Some s \<Rightarrow> s) \<notin> set marker_labels"
  proof -
    have "trim (utf16 ''Baustelle'') = utf16 ''Baustelle''"
      using trim_padded [of "[]" "[]" "utf16 ''Baustelle''"]
      by (simp add: utf16_def is_whitespace_def)
    then show ?thesis
      by (simp add: marker_labels_def)
  qed
  have base: "markerColor (Some (utf16 ''Gefahrenstelle'')) = utf16 ''#ffb020''"
    using markerColor_label_index [of 1] by (simp add: marker_labels_def marker_colors_def)
  from markerColor_total_six_colors [of "Some (utf16 ''Baustelle'')"] l pre post other base
  show ?thesis
    unfolding split by metis
qed

section \<open>States and runs\<close>

lemma utf16_append [simp]: "utf16 a @ utf16 b = utf16 (a @ b)"
  by (simp add: utf16_def)

lemma run_invariant:
  assumes "P s" and "\<And>e s. P s \<Longrightarrow> P (step e s)"
  shows "P (run s es)"
  using assms by (induction es arbitrary: s) simp_all

lemma mounted_simps:
  "language mounted = DE" "text mounted = []" "picked mounted = None" "reports mounted = []"
  "error mounted = JNull" "busy mounted = False" "filterCategory mounted = []"
  "searchText mounted = []" "tempSearch mounted = []" "submitting mounted = NotRunning"
  "loading mounted = [DE]"
  "requests mounted = [GET \<lparr>endpoint = utf16 ''http://127.0.0.1:8000/reports'', params = []\<rparr>]"
  by (simp_all add: mounted_def useEffect_run_def loadReports_url_def loadReports_params_def
      API_BASE_def)

lemma trim_Glass_on_road: "trim (utf16 ''Glass on road'') = utf16 ''Glass on road''"
  using trim_padded [of "[]" "[]" "utf16 ''Glass on road''"]
  by (simp add: utf16_def is_whitespace_def)

text \<open>
  The state after the user has typed a text, picked a position and clicked the
  submit button: the POST is in flight.
\<close>

lemma submitted_state:
  "run mounted [EditText (utf16 ''Glass on road''), PickPosition 48 16, ClickSubmit]
   = mounted\<lparr>text := utf16 ''Glass on road'', picked := Some (48, 16), busy := True,
       requests := requests mounted @
         [POST \<lparr>endpoint = utf16 ''http://127.0.0.1:8000/reports'', params = []\<rparr>
               (utf16 ''Glass on road'') 48 16 (utf16 ''real'')],
       submitting := AwaitPost DE [] []\<rparr>"
  by (simp add: mounted_simps submit_def trim_Glass_on_road API_BASE_def)

lemma messages_differ:
  "errorBackendUnreachable (translations_tbl lang) \<noteq> errorSendFailed (translations_tbl lang)"
  "errorBackendUnreachable (translations_tbl lang) \<noteq> errorLoadReports (translations_tbl lang)"
  by (cases lang; simp add: utf16_def)+

section \<open>submit: the checks before the request\<close>

lemma submit_length_error:
  assumes "length (trim (text s)) < 5 \<or> 150 < length (trim (text s))"
  shows "submit s = s\<lparr>error := JString (errorLength (translations_tbl (language s)))\<rparr>"
  using assms by (simp add: submit_def Let_def)

text \<open>
  C1, as the code has it. \<open>submit\<close> measures the text after \<open>trim()\<close>: when the trimmed
  text has fewer than 5 or more than 150 code units, and so whenever the text itself
  has fewer than 5, \<open>submit\<close> sets the length error of the current language and does
  nothing else: no request is sent and no call is left suspended.
\<close>

theorem submit_rejects_bad_length:
  assumes "length (trim (text s)) < 5 \<or> 150 < length (trim (text s)) \<or> length (text s) < 5"
  shows "submit s = s\<lparr>error := JString (errorLength (translations_tbl (language s)))\<rparr>
         \<and> requests (submit s) = requests s
         \<and> submitting (submit s) = submitting s"
proof -
  have "length (trim (text s)) \<le> length (text s)"
    by (rule length_trim_le)
  with assms have "length (trim (text s)) < 5 \<or> 150 < length (trim (text s))"
    by linarith
  then have "submit s = s\<lparr>error := JString (errorLength (translations_tbl (language s)))\<rparr>"
    by (rule submit_length_error)
  then show ?thesis
    by simp
qed

text \<open>C1, witness: the text \<open>"  Hi   "\<close> with a position picked.\<close>

theorem submit_rejects_bad_length_witness:
  "submit (mounted\<lparr>text := utf16 ''  Hi   '', picked := Some (48, 16)\<rparr>)
     = mounted\<lparr>text := utf16 ''  Hi   '', picked := Some (48, 16),
               error := JString (utf16 ''Text muss zwischen 5 und 150 Zeichen haben.'')\<rparr>
   \<and> requests (submit (mounted\<lparr>text := utf16 ''  Hi   '', picked := Some (48, 16)\<rparr>))
     = [GET \<lparr>endpoint = utf16 ''http://127.0.0.1:8000/reports'', params = []\<rparr>]"
proof -
  have t: "trim (utf16 ''  Hi   '') = utf16 ''Hi''"
    using trim_padded [of "utf16 ''  ''" "utf16 ''   ''" "utf16 ''Hi''"]
    by (simp add: utf16_def is_whitespace_def)
  show ?thesis
    using submit_rejects_bad_length
      [of "mounted\<lparr>text := utf16 ''  Hi   '', picked := Some (48, 16)\<rparr>"]
    by (simp add: t mounted_simps)
qed

lemma trim_Glass_padded: "trim (utf16 ''Glass'' @ replicate 146 0x20) = utf16 ''Glass''"
proof -
  have "\<forall>c \<in> set (replicate 146 (0x20 :: 16 word)). is_whitespace c"
    by (simp add: is_whitespace_def)
  from trim_padded [of "[]" "replicate 146 0x20" "utf16 ''Glass''", OF _ this]
  show ?thesis
    by (simp add: utf16_def is_whitespace_def)
qed

text \<open>
  C1, as the claim states it, fails: a text of 151 code units, \<open>Glass\<close> followed by
  146 spaces, is longer than 150, and with a position picked the click on the submit
  button sends the POST (with the trimmed text) and shows no error.
\<close>

theorem submit_long_text_counterexample:
  "150 < length (utf16 ''Glass'' @ replicate 146 (0x20 :: 16 word))
   \<and> requests (run mounted
        [EditText (utf16 ''Glass'' @ replicate 146 0x20), PickPosition 48 16, ClickSubmit])
      = [GET \<lparr>endpoint = utf16 ''http://127.0.0.1:8000/reports'', params = []\<rparr>,
         POST \<lparr>endpoint = utf16 ''http://127.0.0.1:8000/reports'', params = []\<rparr>
              (utf16 ''Glass'') 48 16 (utf16 ''real'')]
   \<and> error (run mounted
        [EditText (utf16 ''Glass'' @ replicate 146 0x20), PickPosition 48 16, ClickSubmit])
      = JNull"
  by (simp add: mounted_simps submit_def trim_Glass_padded API_BASE_def)

text \<open>
  C5, as the code has it. When the text passes the length check of \<open>submit\<close> (its
  length after \<open>trim()\<close> is between 5 and 150) and no position is picked, \<open>submit\<close> sets the no-location error
  of the current language and does nothing else: no request is sent and no call is
  left suspended.
\<close>

theorem submit_rejects_without_position:
  assumes "5 \<le> length (trim (text s))" and "length (trim (text s)) \<le> 150"
    and "picked s = None"
  shows "submit s = s\<lparr>error := JString (errorNoLocation (translations_tbl (language s)))\<rparr>
         \<and> requests (submit s) = requests s
         \<and> submitting (submit s) = submitting s"
  using assms by (simp add: submit_def Let_def)

text \<open>C5, witness: a valid text typed into the mounted component, no position picked.\<close>

theorem submit_rejects_without_position_witness:
  "submit (mounted\<lparr>text := utf16 ''Glass on road''\<rparr>)
     = mounted\<lparr>text := utf16 ''Glass on road'',
               error := JString (utf16 ''Bitte zuerst eine Position auf der Karte ausw'' @ [0xE4]
                                  @ utf16 ''hlen.'')\<rparr>
   \<and> requests (submit (mounted\<lparr>text := utf16 ''Glass on road''\<rparr>))
     = [GET \<lparr>endpoint = utf16 ''http://127.0.0.1:8000/reports'', params = []\<rparr>]"
  using submit_rejects_without_position [of "mounted\<lparr>text := utf16 ''Glass on road''\<rparr>"]
  by (simp add: trim_Glass_on_road mounted_simps)

lemma trim_Hi: "trim (utf16 ''  Hi   '') = utf16 ''Hi''"
  using trim_padded [of "utf16 ''  ''" "utf16 ''   ''" "utf16 ''Hi''"]
  by (simp add: utf16_def is_whitespace_def)

text \<open>
  C5, as the claim states it with the length of the text as typed, fails: the text
  \<open>"  Hi   "\<close> has 7 code units, which is between 5 and 150, and no position is
  picked, yet the click on the submit button shows the length error, not the
  no-location error: the trimmed text has 2 code units.
\<close>

theorem submit_without_position_counterexample:
  "5 \<le> length (utf16 ''  Hi   '') \<and> length (utf16 ''  Hi   '') \<le> 150
   \<and> picked (run mounted [EditText (utf16 ''  Hi   '')]) = None
   \<and> error (run mounted [EditText (utf16 ''  Hi   ''), ClickSubmit])
     = JString (errorLength (translations_tbl DE))
   \<and> errorLength (translations_tbl DE) \<noteq> errorNoLocation (translations_tbl DE)"
proof -
  have "errorLength (translations_tbl DE) \<noteq> errorNoLocation (translations_tbl DE)"
    by (simp add: utf16_def)
  then show ?thesis
    by (simp add: mounted_simps submit_def trim_Hi del: translations_tbl.simps)
qed

section \<open>The stored reports\<close>

lemma loadReports_settle_reports:
  assumes "loadReports_settle r s = Some s'"
  shows "\<exists>data. s' = s\<lparr>reports := filter (\<lambda>r. category r \<noteq> utf16 ''Spam'') data\<rparr>"
  using assms by (auto simp: loadReports_settle_def split: settled.splits)

lemma no_spam_effect_settle:
  assumes "no_spam s"
  shows "no_spam (effect_settle i r s)"
proof (cases "loadReports_settle r (s\<lparr>loading := take i (loading s) @ drop (Suc i) (loading s)\<rparr>)")
  case None
  with assms show ?thesis
    by (simp add: effect_settle_def Let_def no_spam_def)
next
  case (Some s')
  from loadReports_settle_reports [OF Some] obtain data where
    "s' = s\<lparr>loading := take i (loading s) @ drop (Suc i) (loading s),
            reports := filter (\<lambda>r. category r \<noteq> utf16 ''Spam'') data\<rparr>"
    by auto
  with Some assms show ?thesis
    by (simp add: effect_settle_def Let_def no_spam_def)
qed

lemma no_spam_post_settle:
  assumes "no_spam s"
  shows "no_spam (submit_post_settle r s)"
  using assms
  by (simp add: submit_post_settle_def submit_finally_def submit_catch_def no_spam_def Let_def
      split: submit_await.splits settled.splits)

lemma no_spam_reload_settle:
  assumes "no_spam s"
  shows "no_spam (submit_reload_settle r s)"
proof (cases "loadReports_settle r s")
  case None
  with assms show ?thesis
    by (simp add: submit_reload_settle_def submit_finally_def submit_catch_def no_spam_def
        split: submit_await.splits)
next
  case (Some s')
  from loadReports_settle_reports [OF Some] obtain data where
    "s' = s\<lparr>reports := filter (\<lambda>r. category r \<noteq> utf16 ''Spam'') data\<rparr>"
    by auto
  with Some assms show ?thesis
    by (simp add: submit_reload_settle_def submit_finally_def no_spam_def
        split: submit_await.splits)
qed

lemma no_spam_step:
  assumes "no_spam s"
  shows "no_spam (step e s)"
proof (cases e)
  case ClickSubmit
  with assms show ?thesis
    by (simp add: no_spam_def submit_def Let_def split: option.splits prod.splits)
next
  case (PostSettles r)
  with assms show ?thesis by (simp add: no_spam_post_settle)
next
  case (ReloadSettles r)
  with assms show ?thesis by (simp add: no_spam_reload_settle)
next
  case (EffectSettles i r)
  with assms show ?thesis by (simp add: no_spam_effect_settle)
qed (use assms in \<open>simp_all add: no_spam_def handleSearch_def clearFilters_def
      toggleLanguage_def exportCSV_def rerender_def useEffect_run_def\<close>)

lemma no_spam_mounted: "no_spam mounted"
  by (simp add: no_spam_def mounted_simps)

text \<open>
  C2. In every state the mounted component can reach, whatever the events (filter,
  search, submissions, loads that succeed or fail, in any order), no stored report
  has the category \<open>Spam\<close>; and a load that succeeds stores the reports of the
  response other than those of category \<open>Spam\<close>, whatever the response's status and
  whatever was stored before. (The variant of \<open>App.tsx\<close> without filter and search has
  the same \<open>setReports(data.filter(...))\<close> in its \<open>loadReports\<close>.)
\<close>

theorem reports_never_contain_spam:
  "(\<forall>r \<in> set (reports (run mounted es)). category r \<noteq> utf16 ''Spam'')
   \<and> loadReports_settle (Resolved \<lparr>ok = b, json = Resolved data\<rparr>) s
       = Some (s\<lparr>reports := filter (\<lambda>r. category r \<noteq> utf16 ''Spam'') data\<rparr>)"
proof -
  have "no_spam (run mounted es)"
    using no_spam_mounted no_spam_step by (rule run_invariant)
  then show ?thesis
    by (simp add: no_spam_def loadReports_settle_def)
qed

text \<open>
  C2, witness: the first load returns one report of category \<open>Hindernis\<close> and one of
  category \<open>Spam\<close>; the first is stored, the second is not.
\<close>

theorem reports_never_contain_spam_witness:
  "reports (run mounted
     [EffectSettles 0 (Resolved \<lparr>ok = True, json = Resolved
        [\<lparr>id_R = 1, text_R = utf16 ''Glass on bike lane'', latitude = 48, longitude = 16,
          timestamp = utf16 ''2025-01-01T10:00:00'', category = utf16 ''Hindernis'',
          confidence = 1, source = utf16 ''real'', is_corrected = False,
          model_name = None, model_version = None\<rparr>,
         \<lparr>id_R = 2, text_R = utf16 ''Buy now'', latitude = 48, longitude = 16,
          timestamp = utf16 ''2025-01-01T11:00:00'', category = utf16 ''Spam'',
          confidence = 1, source = utf16 ''real'', is_corrected = False,
          model_name = None, model_version = None\<rparr>]\<rparr>)])
   = [\<lparr>id_R = 1, text_R = utf16 ''Glass on bike lane'', latitude = 48, longitude = 16,
       timestamp = utf16 ''2025-01-01T10:00:00'', category = utf16 ''Hindernis'',
       confidence = 1, source = utf16 ''real'', is_corrected = False,
       model_name = None, model_version = None\<rparr>]
   \<and> category \<lparr>id_R = 1, text_R = utf16 ''Glass on bike lane'', latitude = 48, longitude = 16,
       timestamp = utf16 ''2025-01-01T10:00:00'', category = utf16 ''Hindernis'',
       confidence = 1, source = utf16 ''real'', is_corrected = False,
       model_name = None, model_version = None\<rparr> \<noteq> utf16 ''Spam''"
  using reports_never_contain_spam
    [of "[EffectSettles 0 (Resolved \<lparr>ok = True, json = Resolved
        [\<lparr>id_R = 1, text_R = utf16 ''Glass on bike lane'', latitude = 48, longitude = 16,
          timestamp = utf16 ''2025-01-01T10:00:00'', category = utf16 ''Hindernis'',
          confidence = 1, source = utf16 ''real'', is_corrected = False,
          model_name = None, model_version = None\<rparr>,
         \<lparr>id_R = 2, text_R = utf16 ''Buy now'', latitude = 48, longitude = 16,
          timestamp = utf16 ''2025-01-01T11:00:00'', category = utf16 ''Spam'',
          confidence = 1, source = utf16 ''real'', is_corrected = False,
          model_name = None, model_version = None\<rparr>]\<rparr>)]"]
  by (simp add: mounted_simps effect_settle_def loadReports_settle_def)

section \<open>The busy flag\<close>

lemma busy_inv_step:
  assumes "busy_inv s"
  shows "busy_inv (step e s)"
proof (cases e)
  case ClickSubmit
  with assms show ?thesis
    by (simp add: busy_inv_def submit_def Let_def split: option.splits prod.splits)
next
  case (PostSettles r)
  with assms show ?thesis
    by (simp add: busy_inv_def submit_post_settle_def submit_finally_def submit_catch_def Let_def
        split: submit_await.splits settled.splits)
next
  case (ReloadSettles r)
  with assms show ?thesis
    by (auto simp: busy_inv_def submit_reload_settle_def submit_finally_def submit_catch_def
        loadReports_settle_def split: submit_await.splits settled.splits)
next
  case (EffectSettles i r)
  with assms show ?thesis
    by (auto simp: busy_inv_def effect_settle_def Let_def loadReports_settle_def
        split: settled.splits)
qed (use assms in \<open>simp_all add: busy_inv_def handleSearch_def clearFilters_def
      toggleLanguage_def exportCSV_def rerender_def useEffect_run_def\<close>)

lemma busy_inv_mounted: "busy_inv mounted"
  by (simp add: busy_inv_def mounted_simps)

lemma busy_inv_run: "busy_inv (run mounted es)"
  using busy_inv_mounted busy_inv_step by (rule run_invariant)

lemma posts_while_busy:
  assumes "busy s"
  shows "filter is_POST (requests (step e s)) = filter is_POST (requests s)"
proof (cases e)
  case (PostSettles r)
  then show ?thesis
    by (simp add: submit_post_settle_def submit_finally_def submit_catch_def Let_def
        split: submit_await.splits settled.splits)
next
  case (ReloadSettles r)
  then show ?thesis
    by (simp add: submit_reload_settle_def submit_finally_def submit_catch_def
        loadReports_settle_def split: submit_await.splits settled.splits)
next
  case (EffectSettles i r)
  then show ?thesis
    by (simp add: effect_settle_def Let_def loadReports_settle_def split: settled.splits)
qed (use assms in \<open>simp_all add: handleSearch_def clearFilters_def
      toggleLanguage_def exportCSV_def rerender_def useEffect_run_def\<close>)

lemma busy_rerender: "busy (rerender old new) = busy new"
  by (simp add: rerender_def useEffect_run_def)

lemma busy_reset_only_on_settle:
  assumes "busy s" and "\<not> busy (step e s)"
  shows "(\<exists>r. e = PostSettles r) \<or> (\<exists>r. e = ReloadSettles r)"
proof (cases e)
  case (EffectSettles i r)
  with assms show ?thesis
    by (simp add: effect_settle_def Let_def loadReports_settle_def
        split: settled.splits if_splits)
qed (use assms in \<open>simp_all add: handleSearch_def clearFilters_def
      toggleLanguage_def exportCSV_def busy_rerender split: if_splits\<close>)

lemma submit_accepted:
  assumes "\<not> busy s" and "5 \<le> length (trim (text s))" and "length (trim (text s)) \<le> 150"
    and "picked s = Some (lat, lng)"
  shows "busy (step ClickSubmit s)"
    and "requests (step ClickSubmit s)
         = requests s @ [POST \<lparr>endpoint = utf16 ''http://127.0.0.1:8000/reports'', params = []\<rparr>
                              (trim (text s)) lat lng (utf16 ''real'')]"
  using assms by (simp_all add: submit_def Let_def API_BASE_def)

text \<open>
  C4, as the code has it. In every state the mounted component can reach, \<open>busy\<close> is
  true exactly while a call of \<open>submit\<close> is suspended on its POST or on the reload
  that follows a successful POST. A click that passes the checks sets \<open>busy\<close> and
  sends the POST. While \<open>busy\<close> is true the submit button is disabled: a click
  changes nothing, and no event sends a POST. \<open>busy\<close> becomes false only when a
  request of \<open>submit\<close> settles: when the POST throws, when its response is not ok,
  and, after a response that is ok, not yet then but when the reload that the same
  call awaits has settled, whether it succeeded or threw.
\<close>

theorem busy_while_submitting:
  "(busy (run mounted es) \<longleftrightarrow> submitting (run mounted es) \<noteq> NotRunning)
   \<and> (busy s \<longrightarrow> step ClickSubmit s = s)
   \<and> (submitting s = AwaitPost lang fc st \<longrightarrow>
        \<not> busy (step (PostSettles Rejected) s)
        \<and> (\<not> ok res \<longrightarrow> \<not> busy (step (PostSettles (Resolved res)) s))
        \<and> (ok res \<longrightarrow> busy (step (PostSettles (Resolved res)) s) = busy s
                    \<and> submitting (step (PostSettles (Resolved res)) s) = AwaitReload lang
                    \<and> \<not> busy (step (ReloadSettles r) (step (PostSettles (Resolved res)) s))))
   \<and> (submitting s = AwaitReload lang \<longrightarrow>
        \<not> busy (step (ReloadSettles r) s)
        \<and> submitting (step (ReloadSettles r) s) = NotRunning)
   \<and> (\<not> busy s \<and> 5 \<le> length (trim (text s)) \<and> length (trim (text s)) \<le> 150
        \<and> picked s = Some (lat, lng) \<longrightarrow>
        busy (step ClickSubmit s)
        \<and> requests (step ClickSubmit s)
           = requests s @ [POST \<lparr>endpoint = utf16 ''http://127.0.0.1:8000/reports'', params = []\<rparr>
                                (trim (text s)) lat lng (utf16 ''real'')])
   \<and> (busy s \<longrightarrow> filter is_POST (requests (step e s)) = filter is_POST (requests s))
   \<and> (busy s \<and> \<not> busy (step e s) \<longrightarrow> (\<exists>r. e = PostSettles r) \<or> (\<exists>r. e = ReloadSettles r))"
proof -
  have inv: "busy (run mounted es) \<longleftrightarrow> submitting (run mounted es) \<noteq> NotRunning"
    using busy_inv_run [of es] by (simp add: busy_inv_def)
  have reload: "\<not> busy (step (ReloadSettles r) s')
      \<and> submitting (step (ReloadSettles r) s') = NotRunning"
    if "submitting s' = AwaitReload lang" for s'
    using that by (simp add: submit_reload_settle_def submit_finally_def split: option.splits)
  have post: "\<not> busy (step (PostSettles Rejected) s)
      \<and> (\<not> ok res \<longrightarrow> \<not> busy (step (PostSettles (Resolved res)) s))
      \<and> (ok res \<longrightarrow> busy (step (PostSettles (Resolved res)) s) = busy s
                    \<and> submitting (step (PostSettles (Resolved res)) s) = AwaitReload lang)"
    if "submitting s = AwaitPost lang fc st"
    using that by (simp add: submit_post_settle_def submit_finally_def submit_catch_def Let_def)
  have both: "\<not> busy (step (ReloadSettles r) (step (PostSettles (Resolved res)) s))"
    if "submitting s = AwaitPost lang fc st" "ok res"
    using post [OF that(1)] that(2) reload by blast
  have click: "busy s \<longrightarrow> step ClickSubmit s = s"
    by simp
  from inv click post both reload [of s] submit_accepted [of s lat lng]
    posts_while_busy [of s e] busy_reset_only_on_settle [of s e]
  show ?thesis
    by blast
qed

text \<open>
  C4, witness: after a click that passes the checks \<open>busy\<close> is true and a second click
  changes nothing; \<open>busy\<close> is false after the POST throws or returns an error status,
  and after a successful POST once the reload has settled.
\<close>

theorem busy_while_submitting_witness:
  "busy (run mounted [EditText (utf16 ''Glass on road''), PickPosition 48 16, ClickSubmit])
   \<and> step ClickSubmit
        (run mounted [EditText (utf16 ''Glass on road''), PickPosition 48 16, ClickSubmit])
      = run mounted [EditText (utf16 ''Glass on road''), PickPosition 48 16, ClickSubmit]
   \<and> \<not> busy (step (PostSettles Rejected)
        (run mounted [EditText (utf16 ''Glass on road''), PickPosition 48 16, ClickSubmit]))
   \<and> \<not> busy (step (PostSettles (Resolved \<lparr>ok = False, json = Rejected\<rparr>))
        (run mounted [EditText (utf16 ''Glass on road''), PickPosition 48 16, ClickSubmit]))
   \<and> busy (step (PostSettles (Resolved \<lparr>ok = True, json = Rejected\<rparr>))
        (run mounted [EditText (utf16 ''Glass on road''), PickPosition 48 16, ClickSubmit]))
   \<and> \<not> busy (step (ReloadSettles Rejected)
        (step (PostSettles (Resolved \<lparr>ok = True, json = Rejected\<rparr>))
          (run mounted [EditText (utf16 ''Glass on road''), PickPosition 48 16, ClickSubmit])))"
proof -
  define s where
    "s = run mounted [EditText (utf16 ''Glass on road''), PickPosition 48 16, ClickSubmit]"
  have await: "submitting s = AwaitPost DE [] []"
    unfolding s_def submitted_state by simp
  define s0 where "s0 = run mounted [EditText (utf16 ''Glass on road''), PickPosition 48 16]"
  have s0: "\<not> busy s0" "trim (text s0) = utf16 ''Glass on road''" "picked s0 = Some (48, 16)"
    by (simp_all add: s0_def mounted_simps trim_Glass_on_road)
  have s: "s = step ClickSubmit s0"
    by (simp add: s_def s0_def)
  from busy_while_submitting
    [of "[]" s0 DE "[]" "[]" "\<lparr>ok = False, json = Rejected\<rparr>" Rejected 48 16 ClickSubmit] s0
  have b: "busy s"
    by (simp add: s)
  from busy_while_submitting
    [of "[EditText (utf16 ''Glass on road''), PickPosition 48 16, ClickSubmit]"
      s DE "[]" "[]" "\<lparr>ok = False, json = Rejected\<rparr>" Rejected 48 16 ClickSubmit]
    await b
  have 1: "step ClickSubmit s = s" "\<not> busy (step (PostSettles Rejected) s)"
    "\<not> busy (step (PostSettles (Resolved \<lparr>ok = False, json = Rejected\<rparr>)) s)"
    by simp_all
  define s' where "s' = step (PostSettles (Resolved \<lparr>ok = True, json = Rejected\<rparr>)) s"
  from busy_while_submitting
    [of "[]" s DE "[]" "[]" "\<lparr>ok = True, json = Rejected\<rparr>" Rejected 48 16 ClickSubmit]
    await b
  have 2: "busy s'" "submitting s' = AwaitReload DE"
    by (simp_all add: s'_def)
  from busy_while_submitting
    [of "[]" s' DE "[]" "[]" "\<lparr>ok = True, json = Rejected\<rparr>" Rejected 48 16 ClickSubmit] 2
  have 3: "\<not> busy (step (ReloadSettles Rejected) s')"
    by simp
  from b 1 2 3 show ?thesis
    unfolding s_def s'_def by simp
qed

text \<open>
  C4, as the claim states it, fails when the POST succeeds: the request has
  completed and \<open>busy\<close> is still true, because \<open>submit\<close> has sent the reload and
  awaits it before its \<open>finally\<close> block runs.
\<close>

theorem busy_after_ok_post_counterexample:
  "busy (run mounted
     [EditText (utf16 ''Glass on road''), PickPosition 48 16, ClickSubmit,
      PostSettles (Resolved \<lparr>ok = True, json = Rejected\<rparr>)])
   \<and> requests (run mounted
     [EditText (utf16 ''Glass on road''), PickPosition 48 16, ClickSubmit,
      PostSettles (Resolved \<lparr>ok = True, json = Rejected\<rparr>)])
     = [GET \<lparr>endpoint = utf16 ''http://127.0.0.1:8000/reports'', params = []\<rparr>,
        POST \<lparr>endpoint = utf16 ''http://127.0.0.1:8000/reports'', params = []\<rparr>
             (utf16 ''Glass on road'') 48 16 (utf16 ''real''),
        GET \<lparr>endpoint = utf16 ''http://127.0.0.1:8000/reports'', params = []\<rparr>]"
  by (simp add: mounted_simps submit_def trim_Glass_on_road submit_post_settle_def
      loadReports_url_def loadReports_params_def API_BASE_def)

section \<open>The error after a submission\<close>

lemma messages_nonempty:
  "errorSendFailed (translations_tbl lang) \<noteq> []"
  "errorBackendUnreachable (translations_tbl lang) \<noteq> []"
  by (cases lang; simp add: utf16_def)+

lemma submit_error_state:
  assumes "submitting s = AwaitPost lang fc st" and "\<not> ok res"
    and "json res = Resolved (JObject props)"
    and "map_of props (utf16 ''detail'') = Some d" and "d \<noteq> JNull"
  shows "error (step (PostSettles (Resolved res)) s) = d"
  using assms by (cases d) (simp_all add: submit_post_settle_def submit_finally_def)

lemma submit_error_fallback:
  assumes await: "submitting s = AwaitPost lang fc st" and nok: "\<not> ok res"
    and none: "\<forall>props d. json res = Resolved (JObject props)
        \<and> map_of props (utf16 ''detail'') = Some d \<longrightarrow> d = JNull"
  shows "error (step (PostSettles (Resolved res)) s)
      = JString (errorSendFailed (translations_tbl lang))"
proof -
  define msg where "msg = (case json res of Rejected \<Rightarrow> JNull | Resolved v \<Rightarrow> v)"
  have "nullish (optional_detail msg) b = b" for b
  proof (cases "optional_detail msg")
    case None
    then show ?thesis by simp
  next
    case (Some d)
    then obtain props where m: "msg = JObject props"
      and d: "map_of props (utf16 ''detail'') = Some d"
      by (cases msg) simp_all
    from m have "json res = Resolved (JObject props)"
      by (simp add: msg_def split: settled.splits)
    with none d have "d = JNull"
      by blast
    with Some show ?thesis by simp
  qed
  with nok await show ?thesis
    by (simp add: submit_post_settle_def submit_finally_def msg_def)
qed

lemma submit_error_unreachable:
  assumes "submitting s = AwaitPost lang fc st"
  shows "error (step (PostSettles Rejected) s)
      = JString (errorBackendUnreachable (translations_tbl lang))"
  using assms by (simp add: submit_post_settle_def submit_finally_def submit_catch_def)

lemma render_error_string:
  assumes "m \<noteq> []"
  shows "render_error (JString m) = Some (Banner [TextString m])"
  using assms by (simp add: render_error_def)

text \<open>
  C6, as the code has it. Let a call of \<open>submit\<close> be suspended on its POST, \<open>lang\<close> the
  language its \<open>t\<close> was built from. When the response is not ok and its body parses
  to an object whose \<open>detail\<close> is a string that is not empty, the banner shows that
  string, as it is. When the response is not ok and the body has no \<open>detail\<close> to
  read (it does not parse, it is not an object, it has no \<open>detail\<close>, or \<open>detail\<close> is
  \<open>null\<close>, which \<open>??\<close> treats as absent), the banner shows the send-failed message.
  When the \<open>fetch\<close> throws, the banner shows the backend-unreachable message, which
  is a different string.
\<close>

theorem submit_error_shown:
  assumes "submitting s = AwaitPost lang fc st"
  shows "(\<not> ok res \<and> json res = Resolved (JObject props)
            \<and> map_of props (utf16 ''detail'') = Some (JString d) \<and> d \<noteq> []
          \<longrightarrow> render_error (error (step (PostSettles (Resolved res)) s))
                = Some (Banner [TextString d]))
       \<and> (\<not> ok res
            \<and> (\<forall>props d. json res = Resolved (JObject props)
                  \<and> map_of props (utf16 ''detail'') = Some d \<longrightarrow> d = JNull)
          \<longrightarrow> render_error (error (step (PostSettles (Resolved res)) s))
                = Some (Banner [TextString (errorSendFailed (translations_tbl lang))]))
       \<and> render_error (error (step (PostSettles Rejected) s))
           = Some (Banner [TextString (errorBackendUnreachable (translations_tbl lang))])
       \<and> errorBackendUnreachable (translations_tbl lang) \<noteq> errorSendFailed (translations_tbl lang)"
proof -
  have detail: "render_error (error (step (PostSettles (Resolved res)) s))
      = Some (Banner [TextString d])"
    if "\<not> ok res" "json res = Resolved (JObject props)"
      "map_of props (utf16 ''detail'') = Some (JString d)" "d \<noteq> []"
    using submit_error_state [OF assms that(1,2,3)] that(4)
    by (simp add: render_error_string)
  have fallback: "render_error (error (step (PostSettles (Resolved res)) s))
      = Some (Banner [TextString (errorSendFailed (translations_tbl lang))])"
    if "\<not> ok res"
      and "\<forall>props d. json res = Resolved (JObject props)
        \<and> map_of props (utf16 ''detail'') = Some d \<longrightarrow> d = JNull"
    using submit_error_fallback [OF assms that]
    by (simp add: render_error_string messages_nonempty)
  have unreachable: "render_error (error (step (PostSettles Rejected) s))
      = Some (Banner [TextString (errorBackendUnreachable (translations_tbl lang))])"
    using submit_error_unreachable [OF assms]
    by (simp add: render_error_string messages_nonempty)
  from detail fallback unreachable messages_differ(1) show ?thesis
    by blast
qed

text \<open>
  C6, witness: an error response with \<open>{"detail": "Text too long"}\<close>, one whose body
  does not parse, and a \<open>fetch\<close> that throws.
\<close>

theorem submit_error_shown_witness:
  "render_error (error (step (PostSettles (Resolved \<lparr>ok = False, json = Resolved
       (JObject [(utf16 ''detail'', JString (utf16 ''Text too long''))])\<rparr>))
     (run mounted [EditText (utf16 ''Glass on road''), PickPosition 48 16, ClickSubmit])))
   = Some (Banner [TextString (utf16 ''Text too long'')])
   \<and> render_error (error (step (PostSettles (Resolved \<lparr>ok = False, json = Rejected\<rparr>))
     (run mounted [EditText (utf16 ''Glass on road''), PickPosition 48 16, ClickSubmit])))
   = Some (Banner [TextString (utf16 ''Senden fehlgeschlagen.'')])
   \<and> render_error (error (step (PostSettles Rejected)
     (run mounted [EditText (utf16 ''Glass on road''), PickPosition 48 16, ClickSubmit])))
   = Some (Banner [TextString (utf16 ''Backend nicht erreichbar (l'' @ [0xE4]
               @ utf16 ''uft FastAPI auf Port 8000?).'')])"
proof -
  define s where
    "s = run mounted [EditText (utf16 ''Glass on road''), PickPosition 48 16, ClickSubmit]"
  have await: "submitting s = AwaitPost DE [] []"
    unfolding s_def submitted_state by simp
  from submit_error_shown [OF await,
      of "\<lparr>ok = False, json = Resolved
         (JObject [(utf16 ''detail'', JString (utf16 ''Text too long''))])\<rparr>"
        "[(utf16 ''detail'', JString (utf16 ''Text too long''))]"
        "utf16 ''Text too long''"]
  have 1: "render_error (error (step (PostSettles (Resolved \<lparr>ok = False, json = Resolved
       (JObject [(utf16 ''detail'', JString (utf16 ''Text too long''))])\<rparr>)) s))
     = Some (Banner [TextString (utf16 ''Text too long'')])"
    by simp
  from submit_error_shown [OF await, of "\<lparr>ok = False, json = Rejected\<rparr>"]
  have 2: "render_error (error (step (PostSettles (Resolved \<lparr>ok = False, json = Rejected\<rparr>)) s))
     = Some (Banner [TextString (utf16 ''Senden fehlgeschlagen.'')])"
    by simp
  from submit_error_shown [OF await]
  have 3: "render_error (error (step (PostSettles Rejected) s))
     = Some (Banner [TextString (utf16 ''Backend nicht erreichbar (l'' @ [0xE4]
               @ utf16 ''uft FastAPI auf Port 8000?).'')])"
    by simp
  from 1 2 3 show ?thesis
    unfolding s_def by simp
qed

lemma post_error_state:
  "step (PostSettles (Resolved \<lparr>ok = False, json = Resolved (JObject [(utf16 ''detail'', d)])\<rparr>))
     (run mounted [EditText (utf16 ''Glass on road''), PickPosition 48 16, ClickSubmit])
   = mounted\<lparr>text := utf16 ''Glass on road'', picked := Some (48, 16),
       error := nullish (Some d) (JString (utf16 ''Senden fehlgeschlagen.'')),
       requests := requests mounted @
         [POST \<lparr>endpoint = utf16 ''http://127.0.0.1:8000/reports'', params = []\<rparr>
               (utf16 ''Glass on road'') 48 16 (utf16 ''real'')]\<rparr>"
  unfolding submitted_state
  by (simp add: submit_post_settle_def submit_finally_def mounted_simps)

text \<open>
  C6, as the claim states it, fails. For a \<open>detail\<close> that is an array of objects (the
  body of a validation error of the backend's framework) the state holds the array
  and rendering it throws: nothing is shown. For a \<open>detail\<close> that is the empty string
  no banner is shown. For a \<open>detail\<close> that is \<open>null\<close> the banner shows the send-failed
  message.
\<close>

theorem submit_error_counterexample:
  "error (step (PostSettles (Resolved \<lparr>ok = False, json = Resolved (JObject
       [(utf16 ''detail'', JArray [JObject
          [(utf16 ''msg'', JString (utf16 ''String should have at most 150 characters''))]])])\<rparr>))
     (run mounted [EditText (utf16 ''Glass on road''), PickPosition 48 16, ClickSubmit]))
   = JArray [JObject
       [(utf16 ''msg'', JString (utf16 ''String should have at most 150 characters''))]]
   \<and> render_error (JArray [JObject
       [(utf16 ''msg'', JString (utf16 ''String should have at most 150 characters''))]]) = None
   \<and> render_error (error (step (PostSettles (Resolved \<lparr>ok = False, json = Resolved (JObject
       [(utf16 ''detail'', JString [])])\<rparr>))
     (run mounted [EditText (utf16 ''Glass on road''), PickPosition 48 16, ClickSubmit])))
   = Some (NoBanner [])
   \<and> render_error (error (step (PostSettles (Resolved \<lparr>ok = False, json = Resolved (JObject
       [(utf16 ''detail'', JNull)])\<rparr>))
     (run mounted [EditText (utf16 ''Glass on road''), PickPosition 48 16, ClickSubmit])))
   = Some (Banner [TextString (utf16 ''Senden fehlgeschlagen.'')])"
  unfolding post_error_state by (simp add: render_error_def)

section \<open>A list load that fails\<close>

text \<open>
  C7, as the code has it. A load fails when its \<open>fetch\<close> or its \<open>res.json()\<close> throws.
  When the load was started by the effect, the step removes it from the loads in
  flight and sets the load-error message, in the language of the render that started
  it. When it is the reload inside \<open>submit\<close>, the \<open>catch\<close> of \<open>submit\<close> sets the
  backend-unreachable message, and the call ends. Either way nothing else changes:
  the stored reports are those of before.
\<close>

theorem load_failure_keeps_reports:
  assumes "r = Rejected \<or> (\<exists>res. r = Resolved res \<and> json res = Rejected)"
  shows "(i < length (loading s) \<longrightarrow>
           step (EffectSettles i r) s
             = s\<lparr>loading := take i (loading s) @ drop (Suc i) (loading s),
                 error := JString (errorLoadReports (translations_tbl (loading s ! i)))\<rparr>)
       \<and> (submitting s = AwaitReload lang \<longrightarrow>
           step (ReloadSettles r) s
             = s\<lparr>error := JString (errorBackendUnreachable (translations_tbl lang)),
                 busy := False, submitting := NotRunning\<rparr>)
       \<and> reports (step (EffectSettles i r) s) = reports s
       \<and> reports (step (ReloadSettles r) s) = reports s"
proof -
  from assms have none: "loadReports_settle r s' = None" for s'
    by (auto simp: loadReports_settle_def)
  show ?thesis
    by (simp add: effect_settle_def submit_reload_settle_def none Let_def
        submit_finally_def submit_catch_def split: submit_await.splits)
qed

text \<open>
  C7, witness: the first load of the mounted component gets a response whose body
  does not parse; and the \<open>fetch\<close> of the reload after a successful POST throws.
\<close>

theorem load_failure_keeps_reports_witness:
  "step (EffectSettles 0 (Resolved \<lparr>ok = True, json = Rejected\<rparr>)) mounted
     = mounted\<lparr>loading := [],
         error := JString (utf16 ''Reports konnten nicht geladen werden.'')\<rparr>
   \<and> reports (step (EffectSettles 0 (Resolved \<lparr>ok = True, json = Rejected\<rparr>)) mounted)
     = reports mounted
   \<and> error (step (ReloadSettles Rejected)
       (run mounted [EditText (utf16 ''Glass on road''), PickPosition 48 16, ClickSubmit,
          PostSettles (Resolved \<lparr>ok = True, json = Rejected\<rparr>)]))
     = JString (utf16 ''Backend nicht erreichbar (l'' @ [0xE4]
                 @ utf16 ''uft FastAPI auf Port 8000?).'')
   \<and> reports (step (ReloadSettles Rejected)
       (run mounted [EditText (utf16 ''Glass on road''), PickPosition 48 16, ClickSubmit,
          PostSettles (Resolved \<lparr>ok = True, json = Rejected\<rparr>)]))
     = reports (run mounted [EditText (utf16 ''Glass on road''), PickPosition 48 16, ClickSubmit,
          PostSettles (Resolved \<lparr>ok = True, json = Rejected\<rparr>)])"
proof -
  define s where
    "s = run mounted [EditText (utf16 ''Glass on road''), PickPosition 48 16, ClickSubmit,
          PostSettles (Resolved \<lparr>ok = True, json = Rejected\<rparr>)]"
  have "s = step (PostSettles (Resolved \<lparr>ok = True, json = Rejected\<rparr>))
      (run mounted [EditText (utf16 ''Glass on road''), PickPosition 48 16, ClickSubmit])"
    by (simp add: s_def)
  then have await: "submitting s = AwaitReload DE"
    unfolding submitted_state by (simp add: submit_post_settle_def)
  from load_failure_keeps_reports [of Rejected 0 s DE] await
  have reload: "error (step (ReloadSettles Rejected) s)
        = JString (utf16 ''Backend nicht erreichbar (l'' @ [0xE4]
                   @ utf16 ''uft FastAPI auf Port 8000?).'')"
      "reports (step (ReloadSettles Rejected) s) = reports s"
    by simp_all
  from load_failure_keeps_reports [of "Resolved \<lparr>ok = True, json = Rejected\<rparr>" 0 mounted DE]
  have effect: "step (EffectSettles 0 (Resolved \<lparr>ok = True, json = Rejected\<rparr>)) mounted
     = mounted\<lparr>loading := [],
         error := JString (utf16 ''Reports konnten nicht geladen werden.'')\<rparr>"
     "reports (step (EffectSettles 0 (Resolved \<lparr>ok = True, json = Rejected\<rparr>)) mounted)
       = reports mounted"
    by (simp_all add: mounted_simps)
  from effect reload show ?thesis
    unfolding s_def by simp
qed

text \<open>
  C7, as the claim states it, fails for the load that \<open>submit\<close> makes after a
  successful POST: when its \<open>fetch\<close> throws, the error is the backend-unreachable
  message, which is not the load-error message.
\<close>

theorem reload_failure_counterexample:
  "error (run mounted
      [EditText (utf16 ''Glass on road''), PickPosition 48 16, ClickSubmit,
       PostSettles (Resolved \<lparr>ok = True, json = Rejected\<rparr>),
       ReloadSettles Rejected])
     = JString (errorBackendUnreachable (translations_tbl DE))
   \<and> errorBackendUnreachable (translations_tbl DE) \<noteq> errorLoadReports (translations_tbl DE)"
  by (simp add: mounted_simps submit_def trim_Glass_on_road
      submit_post_settle_def submit_reload_settle_def loadReports_settle_def
      submit_finally_def submit_catch_def messages_differ(2) del: translations_tbl.simps)

section \<open>The export request\<close>

text \<open>
  C8. In every state, a click on the export button only opens the export URL, and
  the parameters of that URL are the \<open>category\<close> parameter of the list request of the
  same state, if it has one: \<open>category\<close> is present exactly when \<open>filterCategory\<close> is
  not empty, with that value, and no other key, \<open>search\<close> in particular, is present.
\<close>

theorem exportCSV_category_only:
  "step ClickExport s
     = s\<lparr>requests := requests s @
         [WindowOpen \<lparr>endpoint = utf16 ''http://127.0.0.1:8000/reports/export'',
                      params = exportCSV_params (filterCategory s)\<rparr>]\<rparr>
   \<and> exportCSV_params (filterCategory s)
     = filter (\<lambda>(k, v). k = utf16 ''category'')
         (loadReports_params (filterCategory s) (searchText s))
   \<and> ((utf16 ''category'', v) \<in> set (exportCSV_params (filterCategory s))
        \<longleftrightarrow> filterCategory s \<noteq> [] \<and> v = filterCategory s)
   \<and> fst ` set (exportCSV_params (filterCategory s)) \<subseteq> {utf16 ''category''}
   \<and> utf16 ''search'' \<notin> fst ` set (exportCSV_params (filterCategory s))"
  by (auto simp: exportCSV_def exportCSV_params_def loadReports_params_def API_BASE_def)

text \<open>
  C8, witness: with the filter \<open>Hindernis\<close> and the search \<open>glass\<close> active, the list
  request carries both and the export request only the category.
\<close>

theorem exportCSV_category_only_witness:
  "requests (step ClickExport
     (run mounted [SelectCategory (utf16 ''Hindernis''), EditSearch (utf16 ''glass''), Search]))
   = [GET \<lparr>endpoint = utf16 ''http://127.0.0.1:8000/reports'', params = []\<rparr>,
      GET \<lparr>endpoint = utf16 ''http://127.0.0.1:8000/reports'',
           params = [(utf16 ''category'', utf16 ''Hindernis'')]\<rparr>,
      GET \<lparr>endpoint = utf16 ''http://127.0.0.1:8000/reports'',
           params = [(utf16 ''category'', utf16 ''Hindernis''),
                     (utf16 ''search'', utf16 ''glass'')]\<rparr>,
      WindowOpen \<lparr>endpoint = utf16 ''http://127.0.0.1:8000/reports/export'',
           params = [(utf16 ''category'', utf16 ''Hindernis'')]\<rparr>]"
proof -
  define s where
    "s = run mounted [SelectCategory (utf16 ''Hindernis''), EditSearch (utf16 ''glass''), Search]"
  have s: "filterCategory s = utf16 ''Hindernis''"
    "requests s = [GET \<lparr>endpoint = utf16 ''http://127.0.0.1:8000/reports'', params = []\<rparr>,
      GET \<lparr>endpoint = utf16 ''http://127.0.0.1:8000/reports'',
           params = [(utf16 ''category'', utf16 ''Hindernis'')]\<rparr>,
      GET \<lparr>endpoint = utf16 ''http://127.0.0.1:8000/reports'',
           params = [(utf16 ''category'', utf16 ''Hindernis''),
                     (utf16 ''search'', utf16 ''glass'')]\<rparr>]"
    by (simp_all add: s_def mounted_simps CATEGORIES_def rerender_def useEffect_run_def
        handleSearch_def loadReports_url_def loadReports_params_def API_BASE_def)
  have "exportCSV_params (filterCategory s) = [(utf16 ''category'', utf16 ''Hindernis'')]"
    by (simp add: s exportCSV_params_def)
  with exportCSV_category_only [of s "utf16 ''Hindernis''"] s show ?thesis
    unfolding s_def by simp
qed

section \<open>The reload after a submission\<close>

text \<open>
  What \<open>submit\<close> does when its POST has returned an ok response: it clears the text
  and sends one list request, whose parameters are those of the \<open>loadReports\<close> of the
  render in which the button was clicked. A response that is not ok, or a \<open>fetch\<close>
  that throws, leaves the text as it is.
\<close>

lemma submit_post_ok:
  assumes "submitting s = AwaitPost lang fc st" and "ok res"
  shows "step (PostSettles (Resolved res)) s
         = s\<lparr>text := [], requests := requests s @ [GET (loadReports_url fc st)],
             submitting := AwaitReload lang\<rparr>"
  using assms by (simp add: submit_post_settle_def)

lemma submit_click_captures:
  assumes "\<not> busy s" and "5 \<le> length (trim (text s))" and "length (trim (text s)) \<le> 150"
    and "picked s = Some p"
  shows "submitting (step ClickSubmit s) = AwaitPost (language s) (filterCategory s) (searchText s)"
  using assms by (cases p) (simp add: submit_def Let_def)

text \<open>
  With no event between the click and the POST's response, the filter and the
  search of the reload are the current ones.
\<close>

lemma submit_then_reload:
  assumes "\<not> busy s" and "5 \<le> length (trim (text s))" and "length (trim (text s)) \<le> 150"
    and "picked s = Some (lat, lng)" and "ok res"
  shows "requests (run s [ClickSubmit, PostSettles (Resolved res)])
           = requests s @
             [POST \<lparr>endpoint = API_BASE @ utf16 ''/reports'', params = []\<rparr>
                   (trim (text s)) lat lng (utf16 ''real''),
              GET (loadReports_url (filterCategory s) (searchText s))]"
    and "text (run s [ClickSubmit, PostSettles (Resolved res)]) = []"
    and "filterCategory (run s [ClickSubmit, PostSettles (Resolved res)]) = filterCategory s"
    and "searchText (run s [ClickSubmit, PostSettles (Resolved res)]) = searchText s"
  using assms by (simp_all add: submit_def submit_post_settle_def Let_def)

lemma submit_post_failed_text:
  assumes "r = Rejected \<or> (\<exists>res. r = Resolved res \<and> \<not> ok res)"
  shows "text (step (PostSettles r) s) = text s"
  using assms
  by (auto simp: submit_post_settle_def submit_finally_def submit_catch_def Let_def
      split: submit_await.splits)

lemma reload_settle_requests: "requests (step (ReloadSettles r) s) = requests s"
  by (auto simp: submit_reload_settle_def submit_finally_def submit_catch_def
      loadReports_settle_def split: submit_await.splits settled.splits)

text \<open>
  C9, at an input where the code does not do what the claim says. The user types a
  text, picks a position and clicks the submit button with no filter set; while the
  POST is in flight the user selects the category \<open>Hindernis\<close> (the effect sends the
  list request with \<open>category=Hindernis\<close>); then the POST returns ok. The reload that
  \<open>submit\<close> now sends has no \<open>category\<close> parameter, although the active filter is
  \<open>Hindernis\<close>: \<open>submit\<close> calls the \<open>loadReports\<close> of the render in which the button was
  clicked, and that function reads that render's \<open>filterCategory\<close> and \<open>searchText\<close>.
\<close>

theorem submit_reload_stale_filter:
  "filterCategory (run mounted
      [EditText (utf16 ''Glass on road''), PickPosition 48 16, ClickSubmit,
       SelectCategory (utf16 ''Hindernis''),
       PostSettles (Resolved \<lparr>ok = True, json = Rejected\<rparr>)]) = utf16 ''Hindernis''
   \<and> requests (run mounted
      [EditText (utf16 ''Glass on road''), PickPosition 48 16, ClickSubmit,
       SelectCategory (utf16 ''Hindernis''),
       PostSettles (Resolved \<lparr>ok = True, json = Rejected\<rparr>)])
     = [GET \<lparr>endpoint = utf16 ''http://127.0.0.1:8000/reports'', params = []\<rparr>,
        POST \<lparr>endpoint = utf16 ''http://127.0.0.1:8000/reports'', params = []\<rparr>
             (utf16 ''Glass on road'') 48 16 (utf16 ''real''),
        GET \<lparr>endpoint = utf16 ''http://127.0.0.1:8000/reports'',
             params = [(utf16 ''category'', utf16 ''Hindernis'')]\<rparr>,
        GET \<lparr>endpoint = utf16 ''http://127.0.0.1:8000/reports'', params = []\<rparr>]"
  by (simp add: mounted_simps submit_def trim_Glass_on_road rerender_def useEffect_run_def
      submit_post_settle_def CATEGORIES_def
      loadReports_url_def loadReports_params_def API_BASE_def)

section \<open>The category values\<close>

lemma category_param_offered:
  assumes "offered fc" and "(utf16 ''category'', v) \<in> set (loadReports_params fc st)"
  shows "v \<in> set CATEGORIES"
  using assms by (auto simp: offered_def loadReports_params_def split: if_splits)

lemma category_inv_useEffect_run:
  assumes "category_inv s"
  shows "category_inv (useEffect_run s)"
  using assms category_param_offered [of "filterCategory s" _ "searchText s"]
  by (auto simp: category_inv_def useEffect_run_def loadReports_url_def)

lemma category_inv_rerender:
  assumes "category_inv new"
  shows "category_inv (rerender old new)"
  using assms by (simp add: rerender_def category_inv_useEffect_run)

lemma category_inv_submit:
  assumes "category_inv s"
  shows "category_inv (submit s)"
  using assms
  by (auto simp: category_inv_def submit_def Let_def split: option.splits submit_await.splits)

lemma category_inv_post_settle:
  assumes "category_inv s"
  shows "category_inv (submit_post_settle r s)"
proof (cases "submitting s")
  case (AwaitPost lang fc st)
  with assms have "offered fc"
    by (simp add: category_inv_def)
  then have "\<forall>v. (utf16 ''category'', v) \<in> set (loadReports_params fc st) \<longrightarrow> v \<in> set CATEGORIES"
    using category_param_offered by blast
  with assms AwaitPost show ?thesis
    by (auto simp: category_inv_def submit_post_settle_def submit_finally_def submit_catch_def
        loadReports_url_def Let_def split: settled.splits)
qed (use assms in \<open>simp_all add: submit_post_settle_def\<close>)

lemma category_inv_reload_settle:
  assumes "category_inv s"
  shows "category_inv (submit_reload_settle r s)"
  using assms
  by (auto simp: category_inv_def submit_reload_settle_def submit_finally_def submit_catch_def
      loadReports_settle_def split: submit_await.splits settled.splits)

lemma category_inv_effect_settle:
  assumes "category_inv s"
  shows "category_inv (effect_settle i r s)"
  using assms
  by (auto simp: category_inv_def effect_settle_def Let_def loadReports_settle_def
      split: settled.splits)

lemma category_inv_exportCSV:
  assumes "category_inv s"
  shows "category_inv (exportCSV s)"
  using assms
  by (auto simp: category_inv_def exportCSV_def exportCSV_params_def offered_def
      split: if_splits)

lemma category_inv_step:
  assumes "category_inv s"
  shows "category_inv (step e s)"
proof (cases e)
  case (SelectCategory c)
  have "category_inv (s\<lparr>filterCategory := c\<rparr>)" if "c \<in> set ([] # CATEGORIES)"
    using that assms by (simp add: category_inv_def offered_def)
  with assms SelectCategory show ?thesis
    by (simp add: category_inv_rerender)
next
  case Search
  have "category_inv (handleSearch s)"
    using assms by (simp add: category_inv_def handleSearch_def)
  with Search show ?thesis
    by (simp add: category_inv_rerender)
next
  case ClickClear
  have "category_inv (clearFilters s)"
    using assms by (simp add: category_inv_def clearFilters_def offered_def)
  with assms ClickClear show ?thesis
    by (simp add: category_inv_rerender)
next
  case ClickSubmit
  with assms show ?thesis
    by (simp add: category_inv_submit)
next
  case ClickExport
  with assms show ?thesis
    by (simp add: category_inv_exportCSV)
next
  case (PostSettles r)
  with assms show ?thesis
    by (simp add: category_inv_post_settle)
next
  case (ReloadSettles r)
  with assms show ?thesis
    by (simp add: category_inv_reload_settle)
next
  case (EffectSettles i r)
  with assms show ?thesis
    by (simp add: category_inv_effect_settle)
qed (use assms in \<open>simp_all add: category_inv_def toggleLanguage_def\<close>)

lemma category_inv_mounted: "category_inv mounted"
  by (simp add: category_inv_def mounted_simps offered_def)

lemma category_inv_run: "category_inv (run mounted es)"
  using category_inv_mounted category_inv_step by (rule run_invariant)

lemma markerColor_known_iff:
  "markerColor c \<noteq> utf16 ''#a78bfa''
   \<longleftrightarrow> trim (case c of None \<Rightarrow> [] | Some s \<Rightarrow> s) \<in> set marker_labels"
  by (simp add: markerColor_def marker_labels_def Let_def)

text \<open>
  C3, as the code has it. The category values the program knows are the five strings
  \<open>Hindernis\<close>, \<open>Gefahrenstelle\<close>, \<open>Infrastrukturproblem\<close>, \<open>Positives Feedback\<close> and
  \<open>Spam\<close>: they are the keys of \<open>categoryTranslations\<close> in both languages, and
  \<open>markerColor\<close> gives a colour other than the fallback exactly to the strings that
  are one of them once trimmed. The filter offers the four of them other than \<open>Spam\<close>: in every
  reachable state the selected filter is empty or one of the four, and every
  \<open>category\<close> parameter sent so far is one of the four. The category of a report that
  a load returns is not checked: whatever it is, the report is stored unless the
  category is \<open>Spam\<close>.
\<close>

theorem category_values_recognised:
  "fst ` set (categoryTranslations lang) = set marker_labels
   \<and> (markerColor c \<noteq> utf16 ''#a78bfa''
        \<longleftrightarrow> trim (case c of None \<Rightarrow> [] | Some s \<Rightarrow> s) \<in> set marker_labels)
   \<and> set CATEGORIES = set marker_labels - {utf16 ''Spam''}
   \<and> filterCategory (run mounted es) \<in> set ([] # CATEGORIES)
   \<and> (\<forall>q \<in> set (requests (run mounted es)). \<forall>v.
         (utf16 ''category'', v) \<in> set (params (url_of q)) \<longrightarrow> v \<in> set CATEGORIES)
   \<and> loadReports_settle (Resolved \<lparr>ok = b, json = Resolved [r]\<rparr>) s
       = Some (s\<lparr>reports := (if category r = utf16 ''Spam'' then [] else [r])\<rparr>)"
proof -
  have keys: "fst ` set (categoryTranslations lang) = set marker_labels"
    by (cases lang) (auto simp: marker_labels_def)
  have offer: "set CATEGORIES = set marker_labels - {utf16 ''Spam''}"
    by (auto simp: CATEGORIES_def marker_labels_def)
  have load: "loadReports_settle (Resolved \<lparr>ok = b, json = Resolved [r]\<rparr>) s
       = Some (s\<lparr>reports := (if category r = utf16 ''Spam'' then [] else [r])\<rparr>)"
    by (simp add: loadReports_settle_def)
  from category_inv_run [of es] have
    "filterCategory (run mounted es) \<in> set ([] # CATEGORIES)"
    "\<forall>q \<in> set (requests (run mounted es)). \<forall>v.
         (utf16 ''category'', v) \<in> set (params (url_of q)) \<longrightarrow> v \<in> set CATEGORIES"
    by (simp_all add: category_inv_def offered_def)
  with keys offer load markerColor_known_iff show ?thesis
    by blast
qed

text \<open>
  C3, witness: \<open>Spam\<close> has a colour of its own, and the list request sent when the
  user selects \<open>Gefahrenstelle\<close> carries that category, one of the four offered.
\<close>

theorem category_values_recognised_witness:
  "markerColor (Some (utf16 ''Spam'')) \<noteq> utf16 ''#a78bfa''
   \<and> requests (run mounted [SelectCategory (utf16 ''Gefahrenstelle'')])
     = [GET \<lparr>endpoint = utf16 ''http://127.0.0.1:8000/reports'', params = []\<rparr>,
        GET \<lparr>endpoint = utf16 ''http://127.0.0.1:8000/reports'',
             params = [(utf16 ''category'', utf16 ''Gefahrenstelle'')]\<rparr>]
   \<and> utf16 ''Gefahrenstelle'' \<in> set CATEGORIES"
proof -
  define es where "es = [SelectCategory (utf16 ''Gefahrenstelle'')]"
  define q where "q = GET \<lparr>endpoint = utf16 ''http://127.0.0.1:8000/reports'',
             params = [(utf16 ''category'', utf16 ''Gefahrenstelle'')]\<rparr>"
  have r: "requests (run mounted es)
     = [GET \<lparr>endpoint = utf16 ''http://127.0.0.1:8000/reports'', params = []\<rparr>, q]"
    by (simp add: es_def q_def mounted_simps CATEGORIES_def rerender_def useEffect_run_def
        loadReports_url_def loadReports_params_def API_BASE_def)
  note inst = category_values_recognised [of DE "Some (utf16 ''Spam'')" es]
  have "trim (utf16 ''Spam'') \<in> set marker_labels"
    by (simp add: trim_marker_label marker_labels_def)
  with inst have known: "markerColor (Some (utf16 ''Spam'')) \<noteq> utf16 ''#a78bfa''"
    by simp
  from inst have "\<forall>q \<in> set (requests (run mounted es)). \<forall>v.
      (utf16 ''category'', v) \<in> set (params (url_of q)) \<longrightarrow> v \<in> set CATEGORIES"
    by blast
  moreover have "q \<in> set (requests (run mounted es))"
    by (simp add: r)
  moreover have "(utf16 ''category'', utf16 ''Gefahrenstelle'') \<in> set (params (url_of q))"
    by (simp add: q_def)
  ultimately have sent: "utf16 ''Gefahrenstelle'' \<in> set CATEGORIES"
    by blast
  from known r sent show ?thesis
    unfolding es_def q_def by simp
qed

text \<open>
  C3, as the claim states it, fails. \<open>Spam\<close> is a key of \<open>categoryTranslations\<close> and has
  a colour of its own, but the filter does not offer it. \<open>Obstacle\<close> is the English
  name shown for \<open>Hindernis\<close>, not a category value: \<open>markerColor\<close> gives it the
  fallback. And a report whose category is none of the five, here \<open>Baustelle\<close>, is
  stored as it comes.
\<close>

theorem category_values_counterexample:
  "utf16 ''Spam'' \<in> fst ` set (categoryTranslations EN)
   \<and> markerColor (Some (utf16 ''Spam'')) = utf16 ''#94a3b8''
   \<and> utf16 ''Spam'' \<notin> set CATEGORIES
   \<and> markerColor (Some (utf16 ''Obstacle'')) = utf16 ''#a78bfa''
   \<and> map category (reports (run mounted
        [EffectSettles 0 (Resolved \<lparr>ok = True, json = Resolved
           [\<lparr>id_R = 1, text_R = utf16 ''Baustelle am Radweg'', latitude = 48, longitude = 16,
             timestamp = utf16 ''2025-01-01T10:00:00'', category = utf16 ''Baustelle'',
             confidence = 1, source = utf16 ''real'', is_corrected = False,
             model_name = None, model_version = None\<rparr>]\<rparr>)]))
     = [utf16 ''Baustelle'']
   \<and> utf16 ''Baustelle'' \<notin> fst ` set (categoryTranslations EN)"
proof -
  have spam: "markerColor (Some (utf16 ''Spam'')) = utf16 ''#94a3b8''"
    using markerColor_label_index [of 4] by (simp add: marker_labels_def marker_colors_def)
  have "trim (utf16 ''Obstacle'') = utf16 ''Obstacle''"
    using trim_padded [of "[]" "[]" "utf16 ''Obstacle''"]
    by (simp add: utf16_def is_whitespace_def)
  then have obstacle: "markerColor (Some (utf16 ''Obstacle'')) = utf16 ''#a78bfa''"
    by (simp add: markerColor_def)
  show ?thesis
    by (simp add: spam obstacle CATEGORIES_def mounted_simps effect_settle_def
        loadReports_settle_def)
qed

end
